theory Spec2Isabelle
  imports Main
begin

section \<open>The chat page of the code assistant: transcript, dispatch and session binding\<close>

text \<open>
  A shallow embedding of the component \<^verbatim>\<open>ChatPage\<close> of
  \<^verbatim>\<open>frontend/src/components/ChatPage.jsx\<close>. The component state (its
  \<^verbatim>\<open>useState\<close> cells, the ref \<^verbatim>\<open>previousSessionRef\<close> and the item
  \<^verbatim>\<open>lastSessionId\<close> of the local storage) is one record; every handler is a function
  from the state it runs in to the state it leaves. An \<^verbatim>\<open>async\<close> handler is cut at
  its \<^verbatim>\<open>await fetch\<close>: the part before it returns the new state and the request it
  sent, the part after it takes the outcome of the request and the state at that later time.
\<close>

subsection \<open>JavaScript values\<close>

text \<open>
  A JavaScript string is the list of its UTF-16 code units, each a natural number below
  65536. \<open>ascii\<close> gives the string of a literal of the source, all of whose characters
  are ASCII and so are one code unit each.
\<close>

type_synonym jstring = "nat list"

definition ascii :: "string \<Rightarrow> jstring" where
  "ascii t = map of_char t"

text \<open>
  A value that the code treats as a string that may be missing: \<^verbatim>\<open>undefined\<close>,
  \<^verbatim>\<open>null\<close> or a string. Equality of the datatype is \<^verbatim>\<open>===\<close> on these values.
\<close>

datatype jsval = Undefined | Null | Str jstring

text \<open>Truthiness: \<^verbatim>\<open>undefined\<close>, \<^verbatim>\<open>null\<close> and the empty string are falsy.\<close>

fun truthy :: "jsval \<Rightarrow> bool" where
  "truthy Undefined = False"
| "truthy Null = False"
| "truthy (Str t) = (t \<noteq> [])"

text \<open>\<^verbatim>\<open>a || b\<close>\<close>

definition js_or :: "jsval \<Rightarrow> jsval \<Rightarrow> jsval" where
  "js_or a b = (if truthy a then a else b)"

text \<open>\<^verbatim>\<open>String(v)\<close>, the conversion \<^verbatim>\<open>localStorage.setItem\<close> applies to its value.\<close>

fun js_String :: "jsval \<Rightarrow> jstring" where
  "js_String Undefined = ascii ''undefined''"
| "js_String Null = ascii ''null''"
| "js_String (Str t) = t"

text \<open>\<^verbatim>\<open>localStorage.getItem\<close>: \<^verbatim>\<open>null\<close> for a missing item.\<close>

fun getItem :: "jstring option \<Rightarrow> jsval" where
  "getItem None = Null"
| "getItem (Some t) = Str t"

text \<open>
  \<^verbatim>\<open>t.trim()\<close> removes from both ends of \<open>t\<close> the code units that ECMAScript
  calls WhiteSpace or LineTerminator: U+0009 to U+000D, U+0020, U+00A0, U+1680, U+2000 to
  U+200A, U+2028, U+2029, U+202F, U+205F, U+3000 and U+FEFF. \<open>blank\<close> is the test
  \<^verbatim>\<open>!t.trim()\<close>: the trimmed string is empty.
\<close>

definition is_space :: "nat \<Rightarrow> bool" where
  "is_space c = (c = 0x09 \<or> c = 0x0A \<or> c = 0x0B \<or> c = 0x0C \<or> c = 0x0D \<or> c = 0x20
     \<or> c = 0xA0 \<or> c = 0x1680 \<or> (0x2000 \<le> c \<and> c \<le> 0x200A) \<or> c = 0x2028
     \<or> c = 0x2029 \<or> c = 0x202F \<or> c = 0x205F \<or> c = 0x3000 \<or> c = 0xFEFF)"

definition trim :: "jstring \<Rightarrow> jstring" where
  "trim t = rev (dropWhile is_space (rev (dropWhile is_space t)))"

definition blank :: "jstring \<Rightarrow> bool" where
  "blank t = (trim t = [])"

subsection \<open>Messages, requests and responses\<close>

text \<open>
  A message object of the transcript. A field the object literal does not write is
  \<^verbatim>\<open>undefined\<close>: \<open>None\<close> for \<open>sources\<close> and \<open>responseTime\<close>.
\<close>

record message =
  role :: jstring
  content :: jsval
  sources :: "jstring list option"
  responseTime :: "nat option"
  dbScope :: jsval

text \<open>The JSON body of \<^verbatim>\<open>POST /api/chat/query\<close>.\<close>

record query_body =
  query :: jstring
  body_session_id :: jsval
  use_rag :: bool
  body_db_scope :: jsval

text \<open>
  The object \<^verbatim>\<open>data\<close> parsed from the response to a query. A field that the body
  does not have reads as \<^verbatim>\<open>undefined\<close>.
\<close>

record query_data =
  session_id :: jsval
  answer :: jsval
  data_sources :: "jstring list option"
  response_time_ms :: "nat option"

text \<open>One element of the array parsed from \<^verbatim>\<open>GET /api/chat/sessions/<id>/messages\<close>.\<close>

record history_row =
  row_role :: jstring
  row_content :: jsval
  row_sources :: "jstring list option"
  row_response_time_ms :: "nat option"
  db_scope :: jsval

text \<open>
  How \<^verbatim>\<open>await fetch(...)\<close> followed by \<^verbatim>\<open>await response.json()\<close> ends:
  \<open>Rejected\<close> when \<^verbatim>\<open>fetch\<close> rejects (the server is not reachable);
  \<open>Resolved ok body\<close> when a response arrives, \<open>ok\<close> being \<^verbatim>\<open>response.ok\<close> (a status
  in 200..299) and \<open>body\<close> the parsed value, \<open>None\<close> when the body does not parse to a value
  of the shape the handler reads (then the handler's \<^verbatim>\<open>try\<close> block throws).
\<close>

datatype 'a fetched = Rejected | Resolved bool "'a option"

text \<open>
  What an in-flight query keeps for its continuation: the body it sent and the variables of
  the handler's activation that the code after \<^verbatim>\<open>await\<close> reads
  (\<^verbatim>\<open>sessionId\<close> and \<^verbatim>\<open>selectedDb\<close> of the render in \<^verbatim>\<open>sendMessage\<close>,
  \<^verbatim>\<open>dbScopeForEdit\<close> in \<^verbatim>\<open>saveEditedMessage\<close>).
\<close>

record pending =
  request :: query_body
  cl_sessionId :: jsval
  cl_dbScope :: jsval

datatype js_error = TypeError

subsection \<open>The component state\<close>

record state =
  messages :: "message list"
  input :: jstring
  loading :: bool
  sessionId :: jsval
  loadingHistory :: bool
  selectedDb :: jstring
  editingIndex :: "nat option"
  editingText :: jstring
  isRegenerating :: bool
  isListening :: bool
  speechSupported :: bool
  previousSessionRef :: jsval
  lastSessionId :: "jstring option"

text \<open>The state at mount; \<open>ptr\<close> is what the local storage holds under \<^verbatim>\<open>lastSessionId\<close>.\<close>

definition initial :: "jstring option \<Rightarrow> state" where
  "initial ptr = \<lparr>messages = [], input = [], loading = False, sessionId = Null,
     loadingHistory = False, selectedDb = ascii ''local'', editingIndex = None, editingText = [],
     isRegenerating = False, isListening = False, speechSupported = False,
     previousSessionRef = Null, lastSessionId = ptr\<rparr>"

subsection \<open>Session binding\<close>

text \<open>\<^verbatim>\<open>checkSessionChange\<close>, run at mount and every 500 ms.\<close>

definition checkSessionChange :: "state \<Rightarrow> state" where
  "checkSessionChange s =
     (let savedSessionId = getItem (lastSessionId s) in
      if savedSessionId \<noteq> previousSessionRef s
      then s\<lparr>previousSessionRef := savedSessionId, sessionId := savedSessionId,
             messages := [], editingIndex := None, editingText := []\<rparr>
      else s)"

text \<open>The message built from one row of the fetched history.\<close>

definition loaded_message :: "history_row \<Rightarrow> message" where
  "loaded_message msg = \<lparr>role = row_role msg, content = row_content msg,
     sources = Some (case row_sources msg of None \<Rightarrow> [] | Some xs \<Rightarrow> xs),
     responseTime = row_response_time_ms msg,
     dbScope = js_or (db_scope msg) (Str (ascii ''local''))\<rparr>"

text \<open>
  \<^verbatim>\<open>loadChatHistory\<close>, the effect on \<^verbatim>\<open>[sessionId]\<close>, up to its
  \<^verbatim>\<open>await fetch\<close>: the new state and the id whose history it requests.
\<close>

definition loadChatHistory :: "state \<Rightarrow> state \<times> jsval option" where
  "loadChatHistory s =
     (if \<not> truthy (sessionId s) then (s\<lparr>messages := []\<rparr>, None)
      else (s\<lparr>loadingHistory := True\<rparr>, Some (sessionId s)))"

text \<open>
  \<^verbatim>\<open>loadChatHistory\<close> after the fetch: \<^verbatim>\<open>response.json()\<close> is read only
  when \<^verbatim>\<open>response.ok\<close>; an exception is logged; \<^verbatim>\<open>finally\<close> clears the flag.
\<close>

fun loadChatHistory_settled :: "history_row list fetched \<Rightarrow> state \<Rightarrow> state" where
  "loadChatHistory_settled (Resolved True (Some data)) s =
     s\<lparr>messages := map loaded_message data, loadingHistory := False\<rparr>"
| "loadChatHistory_settled (Resolved True None) s = s\<lparr>loadingHistory := False\<rparr>"
| "loadChatHistory_settled (Resolved False body) s = s\<lparr>loadingHistory := False\<rparr>"
| "loadChatHistory_settled Rejected s = s\<lparr>loadingHistory := False\<rparr>"

text \<open>
  React runs the effect after a render in which \<^verbatim>\<open>sessionId\<close> differs from the
  render before: \<open>before\<close> and \<open>after\<close> are the states of the two renders.
\<close>

definition sessionId_effect :: "state \<Rightarrow> state \<Rightarrow> state \<times> jsval option" where
  "sessionId_effect before after =
     (if sessionId after \<noteq> sessionId before then loadChatHistory after else (after, None))"

text \<open>\<^verbatim>\<open>startNewChat\<close>\<close>

definition startNewChat :: "state \<Rightarrow> state" where
  "startNewChat s = s\<lparr>messages := [], sessionId := Null, lastSessionId := None,
     previousSessionRef := Null\<rparr>"

subsection \<open>Dispatch of a new message\<close>

text \<open>
  \<^verbatim>\<open>sendMessage\<close> up to its \<^verbatim>\<open>await fetch\<close>. It returns when the input is
  blank. \<^verbatim>\<open>recognitionRef.current.stop()\<close> writes no state of the component (the
  recognition's \<^verbatim>\<open>onend\<close> event does, later). The handler tests neither
  \<^verbatim>\<open>loading\<close> nor \<^verbatim>\<open>isRegenerating\<close>.
\<close>

definition sendMessage :: "state \<Rightarrow> state \<times> pending option" where
  "sendMessage s =
     (if blank (input s) then (s, None)
      else
        let userMessage = \<lparr>role = ascii ''user'', content = Str (input s), sources = None,
              responseTime = None, dbScope = Str (selectedDb s)\<rparr>
        in (s\<lparr>messages := messages s @ [userMessage], input := [], loading := True\<rparr>,
            Some \<lparr>request = \<lparr>query = input s, body_session_id = sessionId s,
                     use_rag = True, body_db_scope = Str (selectedDb s)\<rparr>,
                   cl_sessionId = sessionId s, cl_dbScope = Str (selectedDb s)\<rparr>))"

text \<open>
  The block \<^verbatim>\<open>if (!sessionId) { ... }\<close> of \<^verbatim>\<open>sendMessage\<close>:
  \<^verbatim>\<open>sessionId\<close> is the variable of the activation, \<open>cl_sessionId\<close>.
\<close>

definition assign_session :: "pending \<Rightarrow> query_data \<Rightarrow> state \<Rightarrow> state" where
  "assign_session p data s =
     (if \<not> truthy (cl_sessionId p)
      then s\<lparr>sessionId := session_id data,
             lastSessionId := Some (js_String (session_id data)),
             previousSessionRef := session_id data\<rparr>
      else s)"

text \<open>
  \<^verbatim>\<open>sendMessage\<close> after the fetch, in the state \<open>s\<close> of that time: the
  \<^verbatim>\<open>try\<close> block when a body was parsed (\<^verbatim>\<open>response.ok\<close> is not read), the
  \<^verbatim>\<open>catch\<close> block otherwise, then \<^verbatim>\<open>finally\<close>. Each
  \<^verbatim>\<open>setMessages(prev => [...prev, m])\<close> appends to the transcript of that time.
\<close>

fun sendMessage_settled :: "pending \<Rightarrow> query_data fetched \<Rightarrow> state \<Rightarrow> state" where
  "sendMessage_settled p (Resolved ok (Some data)) s =
     (let s1 = assign_session p data s;
          assistantMessage = \<lparr>role = ascii ''assistant'', content = answer data,
            sources = data_sources data, responseTime = response_time_ms data,
            dbScope = cl_dbScope p\<rparr>
      in s1\<lparr>messages := messages s1 @ [assistantMessage], loading := False\<rparr>)"
| "sendMessage_settled p failed s =
     s\<lparr>messages := messages s @
          [\<lparr>role = ascii ''assistant'', content = Str (ascii ''Sorry, there was an error. Please try again.''),
            sources = None, responseTime = None, dbScope = cl_dbScope p\<rparr>],
       loading := False\<rparr>"

subsection \<open>Edit and regeneration\<close>

text \<open>\<^verbatim>\<open>xs.splice(k, 1)\<close>: the list without its element at \<open>k\<close>.\<close>

definition splice1 :: "nat \<Rightarrow> 'a list \<Rightarrow> 'a list" where
  "splice1 k xs = take k xs @ drop (Suc k) xs"

text \<open>
  The array \<^verbatim>\<open>updated\<close> of \<^verbatim>\<open>saveEditedMessage\<close>, for an index \<open>editIdx\<close>
  inside \<open>msgs\<close>: the content of the message is overwritten, and the message after it is
  removed when there is one and its role is \<^verbatim>\<open>'assistant'\<close>.
\<close>

definition updated :: "nat \<Rightarrow> jstring \<Rightarrow> message list \<Rightarrow> message list" where
  "updated editIdx newQuery msgs =
     (let u = msgs[editIdx := (msgs ! editIdx)\<lparr>content := Str newQuery\<rparr>] in
      if Suc editIdx < length u \<and> role (u ! Suc editIdx) = ascii ''assistant''
      then splice1 (Suc editIdx) u else u)"

text \<open>
  \<^verbatim>\<open>saveEditedMessage\<close> up to its \<^verbatim>\<open>await fetch\<close>. It returns when the edit
  text is blank. \<^verbatim>\<open>messages[editIdx].dbScope\<close> raises a \<^verbatim>\<open>TypeError\<close> when
  \<^verbatim>\<open>editIdx\<close> is \<^verbatim>\<open>null\<close> or not an index of the transcript, before any
  state is written. The handler does not read the role of the message, and tests neither
  \<^verbatim>\<open>loading\<close> nor \<^verbatim>\<open>isRegenerating\<close>.
\<close>

definition saveEditedMessage :: "state \<Rightarrow> js_error + state \<times> pending option" where
  "saveEditedMessage s =
     (if blank (editingText s) then Inr (s, None)
      else case editingIndex s of
        None \<Rightarrow> Inl TypeError
      | Some editIdx \<Rightarrow>
          if length (messages s) \<le> editIdx then Inl TypeError
          else
            let newQuery = editingText s;
                dbScopeForEdit = js_or (dbScope (messages s ! editIdx)) (Str (selectedDb s))
            in Inr (s\<lparr>isRegenerating := True,
                       messages := updated editIdx newQuery (messages s),
                       editingIndex := None, editingText := []\<rparr>,
                    Some \<lparr>request = \<lparr>query = newQuery, body_session_id = sessionId s,
                             use_rag = True, body_db_scope = dbScopeForEdit\<rparr>,
                           cl_sessionId = sessionId s, cl_dbScope = dbScopeForEdit\<rparr>))"

text \<open>The component state after the handler ran: an exception leaves it as it was.\<close>

definition after_save :: "state \<Rightarrow> state" where
  "after_save s = (case saveEditedMessage s of Inl e \<Rightarrow> s | Inr (s', r) \<Rightarrow> s')"

text \<open>\<^verbatim>\<open>saveEditedMessage\<close> after the fetch; it never writes the session id.\<close>

fun saveEditedMessage_settled :: "pending \<Rightarrow> query_data fetched \<Rightarrow> state \<Rightarrow> state" where
  "saveEditedMessage_settled p (Resolved ok (Some data)) s =
     s\<lparr>messages := messages s @
          [\<lparr>role = ascii ''assistant'', content = answer data, sources = data_sources data,
            responseTime = response_time_ms data, dbScope = cl_dbScope p\<rparr>],
       isRegenerating := False\<rparr>"
| "saveEditedMessage_settled p failed s =
     s\<lparr>messages := messages s @
          [\<lparr>role = ascii ''assistant'',
            content = Str (ascii ''Sorry, there was an error regenerating the response. Please try again.''),
            sources = None, responseTime = None, dbScope = cl_dbScope p\<rparr>],
       isRegenerating := False\<rparr>"

subsection \<open>The controls that call the handlers\<close>

text \<open>
  The attributes \<^verbatim>\<open>disabled\<close> of the send button, of the input area and of the
  Submit button of the edit box, and the condition under which the edit box (with its Submit
  button) is rendered for some message. A disabled or absent control delivers no event, so
  its handler does not run.
\<close>

definition send_button_disabled :: "state \<Rightarrow> bool" where
  "send_button_disabled s = (loading s \<or> blank (input s))"

definition textarea_disabled :: "state \<Rightarrow> bool" where
  "textarea_disabled s = loading s"

definition save_btn_disabled :: "state \<Rightarrow> bool" where
  "save_btn_disabled s = (isRegenerating s \<or> blank (editingText s))"

definition edit_box_rendered :: "state \<Rightarrow> bool" where
  "edit_box_rendered s =
     (case editingIndex s of
        None \<Rightarrow> False
      | Some idx \<Rightarrow> idx < length (messages s) \<and> role (messages s ! idx) = ascii ''user'')"

definition click_send :: "state \<Rightarrow> state \<times> pending option" where
  "click_send s = (if send_button_disabled s then (s, None) else sendMessage s)"

text \<open>\<^verbatim>\<open>handleKeyPress\<close> on Enter without Shift.\<close>

definition press_enter :: "state \<Rightarrow> state \<times> pending option" where
  "press_enter s = (if textarea_disabled s then (s, None) else sendMessage s)"

definition click_save :: "state \<Rightarrow> js_error + state \<times> pending option" where
  "click_save s =
     (if edit_box_rendered s \<and> \<not> save_btn_disabled s then saveEditedMessage s
      else Inr (s, None))"

text \<open>The dispatcher is Dispatching while a query of either path is in flight.\<close>

definition dispatching :: "state \<Rightarrow> bool" where
  "dispatching s = (loading s \<or> isRegenerating s)"

subsection \<open>The states the component can be in\<close>

text \<open>
  The states reached from the mount by the events of the component. Typing and speech
  results set the input; the scope buttons set \<^verbatim>\<open>selectedDb\<close> to one of the two
  literals; the Edit button of a user message opens the edit box on its content; sibling
  components (\<^verbatim>\<open>handleSessionSelect\<close>, \<^verbatim>\<open>handleLogout\<close> of
  \<^verbatim>\<open>App.jsx\<close>) write the item \<^verbatim>\<open>lastSessionId\<close>. A continuation runs for
  a request that a handler sent from a reachable state, with any outcome, in any reachable
  state; the history effect may run and settle in any reachable state.
\<close>

inductive reachable :: "state \<Rightarrow> bool" where
  mount: "reachable (initial ptr)"
| speech_support: "reachable s \<Longrightarrow> reachable (s\<lparr>speechSupported := True\<rparr>)"
| listening: "reachable s \<Longrightarrow> reachable (s\<lparr>isListening := b\<rparr>)"
| set_input: "reachable s \<Longrightarrow> reachable (s\<lparr>input := t\<rparr>)"
| select_db: "reachable s \<Longrightarrow> db = ascii ''local'' \<or> db = ascii ''shared'' \<Longrightarrow>
    reachable (s\<lparr>selectedDb := db\<rparr>)"
| start_edit: "reachable s \<Longrightarrow> idx < length (messages s) \<Longrightarrow>
    role (messages s ! idx) = ascii ''user'' \<Longrightarrow> content (messages s ! idx) = Str t \<Longrightarrow>
    reachable (s\<lparr>editingIndex := Some idx, editingText := t\<rparr>)"
| set_edit_text: "reachable s \<Longrightarrow> reachable (s\<lparr>editingText := t\<rparr>)"
| cancel_edit: "reachable s \<Longrightarrow> reachable (s\<lparr>editingIndex := None, editingText := []\<rparr>)"
| pointer: "reachable s \<Longrightarrow> reachable (s\<lparr>lastSessionId := ptr\<rparr>)"
| poll: "reachable s \<Longrightarrow> reachable (checkSessionChange s)"
| load: "reachable s \<Longrightarrow> reachable (fst (loadChatHistory s))"
| load_settled: "reachable s \<Longrightarrow> reachable (loadChatHistory_settled out s)"
| send: "reachable s \<Longrightarrow> reachable (fst (sendMessage s))"
| send_settled: "reachable s0 \<Longrightarrow> sendMessage s0 = (s1, Some p) \<Longrightarrow> reachable s \<Longrightarrow>
    reachable (sendMessage_settled p out s)"
| save: "reachable s \<Longrightarrow> saveEditedMessage s = Inr (s', r) \<Longrightarrow> reachable s'"
| save_settled: "reachable s0 \<Longrightarrow> saveEditedMessage s0 = Inr (s1, Some p) \<Longrightarrow>
    reachable s \<Longrightarrow> reachable (saveEditedMessage_settled p out s)"
| new_chat: "reachable s \<Longrightarrow> reachable (startNewChat s)"

text \<open>What holds of the scopes in every reachable state (shown below).\<close>

definition scopes_set :: "state \<Rightarrow> bool" where
  "scopes_set s = ((selectedDb s = ascii ''local'' \<or> selectedDb s = ascii ''shared'')
     \<and> list_all (\<lambda>m. truthy (dbScope m)) (messages s))"

subsection \<open>Example transcripts\<close>

definition user_msg :: "jstring \<Rightarrow> jstring \<Rightarrow> message" where
  "user_msg t sc = \<lparr>role = ascii ''user'', content = Str t, sources = None, responseTime = None,
     dbScope = Str sc\<rparr>"

definition assistant_msg :: "jstring \<Rightarrow> jstring \<Rightarrow> message" where
  "assistant_msg t sc = \<lparr>role = ascii ''assistant'', content = Str t, sources = Some [],
     responseTime = Some 120, dbScope = Str sc\<rparr>"

text \<open>A successful answer, and the body of an error response (a JSON object with a
  \<^verbatim>\<open>detail\<close> field only).\<close>

definition answer_data :: query_data where
  "answer_data = \<lparr>session_id = Str (ascii ''s7''), answer = Str (ascii ''X is a module.''),
     data_sources = Some [ascii ''x.py''], response_time_ms = Some 42\<rparr>"

definition error_data :: query_data where
  "error_data = \<lparr>session_id = Undefined, answer = Undefined, data_sources = None,
     response_time_ms = None\<rparr>"

text \<open>An empty transcript with a question typed, scope \<^verbatim>\<open>local\<close>, no session bound.\<close>

definition asking_state :: state where
  "asking_state = (initial None)\<lparr>input := ascii ''What is X?''\<rparr>"

text \<open>The state after the question was sent, and the query then in flight.\<close>

definition asked_state :: state where
  "asked_state = fst (sendMessage asking_state)"

definition asked :: pending where
  "asked = the (snd (sendMessage asking_state))"

text \<open>
  The query is in flight; the user has opened the edit box on the question and changed it.
\<close>

definition sending_state :: state where
  "sending_state = asked_state\<lparr>editingIndex := Some 0, editingText := ascii ''What is Y?''\<rparr>"

text \<open>
  The answer to the question of \<open>asking_state\<close> arrives after the user has moved the scope
  selector to \<^verbatim>\<open>shared\<close>; then the edit box is opened on the question and its text
  changed.
\<close>

definition answered_state :: state where
  "answered_state = sendMessage_settled asked (Resolved True (Some answer_data))
     (asked_state\<lparr>selectedDb := ascii ''shared''\<rparr>)"

definition reediting_state :: state where
  "reediting_state = answered_state\<lparr>editingIndex := Some 0, editingText := ascii ''What is Y?''\<rparr>"

text \<open>
  The changed question was submitted; its regeneration is in flight and the user has typed
  a new question into the input area.
\<close>

definition regenerating_state :: state where
  "regenerating_state = (after_save reediting_state)\<lparr>input := ascii ''hi''\<rparr>"

text \<open>A question and its answer, bound to the session \<^verbatim>\<open>s1\<close>, nothing in flight.\<close>

definition idle_state :: state where
  "idle_state = (initial (Some (ascii ''s1'')))\<lparr>
     messages := [user_msg (ascii ''Q1'') (ascii ''shared''), assistant_msg (ascii ''A1'') (ascii ''shared'')],
     sessionId := Str (ascii ''s1''), previousSessionRef := Str (ascii ''s1'')\<rparr>"

text \<open>The edit box open on the question of \<open>idle_state\<close>, with a revised text.\<close>

definition editing_state :: state where
  "editing_state = idle_state\<lparr>editingIndex := Some 0, editingText := ascii ''Q1-revised''\<rparr>"

text \<open>The state after the revised question was submitted, and the query then in flight.\<close>

definition revised_state :: state where
  "revised_state = after_save editing_state"

definition revised :: pending where
  "revised = the (snd (projr (saveEditedMessage editing_state)))"


text \<open>The edit box open on the question of \<open>idle_state\<close>, its text replaced by a space.\<close>

definition blank_edit_state :: state where
  "blank_edit_state = idle_state\<lparr>editingIndex := Some 0, editingText := ascii '' ''\<rparr>"

text \<open>Two turns, the edit box open on the first question.\<close>

definition two_turn_state :: state where
  "two_turn_state = idle_state\<lparr>
     messages := [user_msg (ascii ''Q1'') (ascii ''shared''), assistant_msg (ascii ''A1'') (ascii ''shared''),
                  user_msg (ascii ''Q2'') (ascii ''local''), assistant_msg (ascii ''A2'') (ascii ''local'')],
     editingIndex := Some 0, editingText := ascii ''Q1-revised''\<rparr>"

text \<open>A further question typed while \<open>idle_state\<close> is shown, and the query it sends.\<close>

definition follow_up_state :: state where
  "follow_up_state = idle_state\<lparr>input := ascii ''hi''\<rparr>"

definition follow_up :: pending where
  "follow_up = the (snd (sendMessage follow_up_state))"

text \<open>The session selector has written another id while \<open>idle_state\<close> was shown.\<close>

definition switched_state :: state where
  "switched_state = idle_state\<lparr>lastSessionId := Some (ascii ''s2'')\<rparr>"

definition history_rows :: "history_row list" where
  "history_rows =
     [\<lparr>row_role = ascii ''user'', row_content = Str (ascii ''Q''), row_sources = None,
        row_response_time_ms = None, db_scope = Undefined\<rparr>,
      \<lparr>row_role = ascii ''assistant'', row_content = Str (ascii ''A''), row_sources = Some [ascii ''a.md''],
        row_response_time_ms = Some 7, db_scope = Str (ascii ''shared'')\<rparr>]"

text \<open>
  The first query of \<open>asking_state\<close> is rejected by the network, so that no session is
  bound; then the edit box is opened on the question and its text changed. \<open>unbound_edit\<close>
  is the query that Submit sends from there.
\<close>

definition apologised_state :: state where
  "apologised_state = sendMessage_settled asked Rejected asked_state"

definition unbound_edit_state :: state where
  "unbound_edit_state = apologised_state\<lparr>editingIndex := Some 0,
     editingText := ascii ''What is Y?''\<rparr>"

definition unbound_edit :: pending where
  "unbound_edit = the (snd (projr (saveEditedMessage unbound_edit_state)))"

text \<open>The edit box open on the question of \<open>idle_state\<close>, its text a no-break space.\<close>

definition nbsp_edit_state :: state where
  "nbsp_edit_state = idle_state\<lparr>editingIndex := Some 0, editingText := [0xA0]\<rparr>"

section \<open>Properties\<close>

subsection \<open>What the handlers return\<close>

lemma ascii_eq_iff [simp]: "ascii a = ascii b \<longleftrightarrow> a = b"
  by (simp add: ascii_def inj_map_eq_map [OF inj_of_char])

lemma ascii_Nil [simp]:
  "ascii [] = []" "ascii t = [] \<longleftrightarrow> t = []" "[] = ascii t \<longleftrightarrow> t = []"
  by (auto simp: ascii_def)

text \<open>A text is blank exactly when all its code units are white space.\<close>

lemma blank_iff: "blank t \<longleftrightarrow> list_all is_space t"
proof -
  have "dropWhile is_space (rev (dropWhile is_space t)) = [] \<longleftrightarrow> dropWhile is_space t = []"
  proof
    assume a: "dropWhile is_space (rev (dropWhile is_space t)) = []"
    show "dropWhile is_space t = []"
    proof (rule ccontr)
      assume n: "dropWhile is_space t \<noteq> []"
      then have "\<not> is_space (hd (dropWhile is_space t))"
        by (rule hd_dropWhile)
      moreover from a have "\<forall>x \<in> set (dropWhile is_space t). is_space x"
        by (simp add: dropWhile_eq_Nil_conv)
      ultimately show False using n by (simp add: hd_in_set)
    qed
  next
    assume "dropWhile is_space t = []"
    then show "dropWhile is_space (rev (dropWhile is_space t)) = []"
      by (simp del: dropWhile_eq_Nil_conv)
  qed
  then show ?thesis
    by (simp add: blank_def trim_def dropWhile_eq_Nil_conv list_all_iff)
qed

lemma blank_examples:
  "blank [] = True" "blank (ascii '' '') = True" "blank [0xA0] = True"
  "blank [0x2028, 0xFEFF, 0x3000] = True"
  "blank (ascii ''hi'') = False" "blank (ascii ''X'') = False"
  "blank (ascii ''Q1-revised'') = False" "blank (ascii ''What is X?'') = False"
  "blank (ascii ''What is Y?'') = False" "blank (ascii ''Q1-again'') = False"
  by (simp_all add: blank_iff is_space_def ascii_def)

lemma messages_assign_session: "messages (assign_session p data s) = messages s"
  by (simp add: assign_session_def)

lemma sendMessage_sent:
  assumes "sendMessage s = (s1, Some p)"
  shows "\<not> blank (input s)"
    and "cl_dbScope p = Str (selectedDb s)"
    and "cl_sessionId p = sessionId s"
    and "body_db_scope (request p) = Str (selectedDb s)"
    and "body_session_id (request p) = sessionId s"
    and "query (request p) = input s"
  using assms by (auto simp: sendMessage_def Let_def split: if_splits)

lemma saveEditedMessage_sent:
  assumes "saveEditedMessage s = Inr (s1, Some p)"
  shows "\<exists>i. editingIndex s = Some i \<and> i < length (messages s)"
    and "\<not> blank (editingText s)"
    and "cl_dbScope p = js_or (dbScope (messages s ! the (editingIndex s))) (Str (selectedDb s))"
    and "body_db_scope (request p) = cl_dbScope p"
    and "query (request p) = editingText s"
    and "s1 = s\<lparr>isRegenerating := True,
           messages := updated (the (editingIndex s)) (editingText s) (messages s),
           editingIndex := None, editingText := []\<rparr>"
  using assms
  by (auto simp: saveEditedMessage_def Let_def split: if_splits option.splits)

lemma saveEditedMessage_valid:
  assumes "editingIndex s = Some i" and "i < length (messages s)"
    and "\<not> blank (editingText s)"
  shows "saveEditedMessage s =
     Inr (s\<lparr>isRegenerating := True, messages := updated i (editingText s) (messages s),
            editingIndex := None, editingText := []\<rparr>,
          Some \<lparr>request = \<lparr>query = editingText s, body_session_id = sessionId s,
                  use_rag = True,
                  body_db_scope = js_or (dbScope (messages s ! i)) (Str (selectedDb s))\<rparr>,
                cl_sessionId = sessionId s,
                cl_dbScope = js_or (dbScope (messages s ! i)) (Str (selectedDb s))\<rparr>)"
  using assms by (simp add: saveEditedMessage_def Let_def)

lemma after_save_valid:
  assumes "editingIndex s = Some i" and "i < length (messages s)"
    and "\<not> blank (editingText s)"
  shows "after_save s = s\<lparr>isRegenerating := True,
     messages := updated i (editingText s) (messages s),
     editingIndex := None, editingText := []\<rparr>"
  by (simp add: after_save_def saveEditedMessage_valid [OF assms])

lemma length_splice1: "k < length xs \<Longrightarrow> Suc (length (splice1 k xs)) = length xs"
  by (auto simp: splice1_def)

lemma nth_splice1_before: "i < k \<Longrightarrow> k < length xs \<Longrightarrow> splice1 k xs ! i = xs ! i"
  by (simp add: splice1_def nth_append)

lemma nth_updated:
  "i < length msgs \<Longrightarrow> updated i t msgs ! i = (msgs ! i)\<lparr>content := Str t\<rparr>"
  by (simp add: updated_def Let_def nth_splice1_before)

lemma updated_cases:
  "updated i t msgs =
     (if Suc i < length msgs \<and> role (msgs ! Suc i) = ascii ''assistant''
      then splice1 (Suc i) (msgs[i := (msgs ! i)\<lparr>content := Str t\<rparr>])
      else msgs[i := (msgs ! i)\<lparr>content := Str t\<rparr>])"
  by (simp add: updated_def Let_def)

lemma example_states:
  "idle_state = \<lparr>messages = [user_msg (ascii ''Q1'') (ascii ''shared''), assistant_msg (ascii ''A1'') (ascii ''shared'')],
     input = [], loading = False, sessionId = Str (ascii ''s1''), loadingHistory = False,
     selectedDb = ascii ''local'', editingIndex = None, editingText = [], isRegenerating = False,
     isListening = False, speechSupported = False, previousSessionRef = Str (ascii ''s1''),
     lastSessionId = Some (ascii ''s1'')\<rparr>"
  "asking_state = \<lparr>messages = [], input = ascii ''What is X?'', loading = False, sessionId = Null,
     loadingHistory = False, selectedDb = ascii ''local'', editingIndex = None, editingText = [],
     isRegenerating = False, isListening = False, speechSupported = False,
     previousSessionRef = Null, lastSessionId = None\<rparr>"
  by (simp_all add: idle_state_def asking_state_def initial_def)

lemma asking_sent:
  "sendMessage asking_state = (asked_state, Some asked)"
  "asked = \<lparr>request = \<lparr>query = ascii ''What is X?'', body_session_id = Null, use_rag = True,
       body_db_scope = Str (ascii ''local'')\<rparr>, cl_sessionId = Null, cl_dbScope = Str (ascii ''local'')\<rparr>"
  "asked_state = \<lparr>messages = [user_msg (ascii ''What is X?'') (ascii ''local'')], input = [],
     loading = True, sessionId = Null, loadingHistory = False, selectedDb = ascii ''local'',
     editingIndex = None, editingText = [], isRegenerating = False, isListening = False,
     speechSupported = False, previousSessionRef = Null, lastSessionId = None\<rparr>"
  by (simp_all add: asked_state_def asked_def sendMessage_def example_states blank_examples
      user_msg_def Let_def)

lemma editing_saved:
  "saveEditedMessage editing_state = Inr (revised_state, Some revised)"
  "revised = \<lparr>request = \<lparr>query = ascii ''Q1-revised'', body_session_id = Str (ascii ''s1''),
       use_rag = True, body_db_scope = Str (ascii ''shared'')\<rparr>,
     cl_sessionId = Str (ascii ''s1''), cl_dbScope = Str (ascii ''shared'')\<rparr>"
  "revised_state = \<lparr>messages = [user_msg (ascii ''Q1-revised'') (ascii ''shared'')], input = [],
     loading = False, sessionId = Str (ascii ''s1''), loadingHistory = False, selectedDb = ascii ''local'',
     editingIndex = None, editingText = [], isRegenerating = True, isListening = False,
     speechSupported = False, previousSessionRef = Str (ascii ''s1''),
     lastSessionId = Some (ascii ''s1'')\<rparr>"
  by (simp_all add: revised_state_def revised_def after_save_def saveEditedMessage_def
      editing_state_def example_states blank_examples updated_def splice1_def js_or_def
      user_msg_def assistant_msg_def Let_def)

subsection \<open>Reachable states\<close>

lemma truthy_js_or: "truthy b \<Longrightarrow> truthy (js_or a b)"
  by (simp add: js_or_def)

lemma js_or_truthy: "truthy a \<Longrightarrow> js_or a b = a"
  by (simp add: js_or_def)

lemma truthy_Str: "truthy v \<Longrightarrow> \<exists>sc. v = Str sc \<and> sc \<noteq> []"
  by (cases v) simp_all

lemma list_all_splice1: "list_all P xs \<Longrightarrow> list_all P (splice1 k xs)"
  by (auto simp: splice1_def list_all_iff dest: in_set_takeD in_set_dropD)

lemma list_all_updated:
  assumes "list_all (\<lambda>m. truthy (dbScope m)) msgs" and "i < length msgs"
  shows "list_all (\<lambda>m. truthy (dbScope m)) (updated i t msgs)"
proof -
  have "truthy (dbScope ((msgs ! i)\<lparr>content := Str t\<rparr>))"
    using assms by (simp add: list_all_length)
  with assms(1) have "list_all (\<lambda>m. truthy (dbScope m)) (msgs[i := (msgs ! i)\<lparr>content := Str t\<rparr>])"
    by (auto simp: list_all_iff dest!: set_update_subset_insert [THEN subsetD])
  then show ?thesis
    by (simp add: updated_cases list_all_splice1)
qed

lemma scopes_set_sent:
  "scopes_set s \<Longrightarrow> sendMessage s = (s1, Some p) \<Longrightarrow> truthy (cl_dbScope p)"
  by (auto simp: scopes_set_def sendMessage_sent)

lemma scopes_set_saved:
  "scopes_set s \<Longrightarrow> saveEditedMessage s = Inr (s1, Some p) \<Longrightarrow> truthy (cl_dbScope p)"
  by (auto simp: scopes_set_def saveEditedMessage_sent intro!: truthy_js_or)

lemma scopes_set_sendMessage_settled:
  "scopes_set s \<Longrightarrow> truthy (cl_dbScope p) \<Longrightarrow> scopes_set (sendMessage_settled p out s)"
  by (cases "(p, out, s)" rule: sendMessage_settled.cases)
    (simp_all add: scopes_set_def assign_session_def Let_def)

lemma scopes_set_saveEditedMessage_settled:
  "scopes_set s \<Longrightarrow> truthy (cl_dbScope p) \<Longrightarrow> scopes_set (saveEditedMessage_settled p out s)"
  by (cases "(p, out, s)" rule: saveEditedMessage_settled.cases)
    (simp_all add: scopes_set_def)

lemma scopes_set_loadChatHistory_settled:
  "scopes_set s \<Longrightarrow> scopes_set (loadChatHistory_settled out s)"
  by (cases "(out, s)" rule: loadChatHistory_settled.cases)
    (simp_all add: scopes_set_def list_all_iff loaded_message_def truthy_js_or)

lemma scopes_set_saveEditedMessage:
  assumes "scopes_set s" and "saveEditedMessage s = Inr (s', r)"
  shows "scopes_set s'"
proof (cases r)
  case None
  with assms(2) have "s' = s"
    by (auto simp: saveEditedMessage_def Let_def split: if_splits option.splits)
  with assms(1) show ?thesis by simp
next
  case (Some p)
  with assms(2) obtain i where "editingIndex s = Some i" "i < length (messages s)"
    and "s' = s\<lparr>isRegenerating := True,
           messages := updated (the (editingIndex s)) (editingText s) (messages s),
           editingIndex := None, editingText := []\<rparr>"
    using saveEditedMessage_sent(1,6) by blast
  with assms(1) show ?thesis
    by (simp add: scopes_set_def list_all_updated)
qed

lemma reachable_scopes_set: "reachable s \<Longrightarrow> scopes_set s"
proof (induction rule: reachable.induct)
  case (mount ptr)
  show ?case by (simp add: scopes_set_def initial_def)
next
  case (poll s)
  then show ?case by (simp add: scopes_set_def checkSessionChange_def Let_def)
next
  case (load s)
  then show ?case by (simp add: scopes_set_def loadChatHistory_def)
next
  case (load_settled s out)
  then show ?case by (simp add: scopes_set_loadChatHistory_settled)
next
  case (send s)
  then show ?case by (auto simp: scopes_set_def sendMessage_def Let_def)
next
  case (send_settled s0 s1 p s out)
  then show ?case
    by (blast intro: scopes_set_sendMessage_settled scopes_set_sent)
next
  case (save s s' r)
  then show ?case by (blast intro: scopes_set_saveEditedMessage)
next
  case (save_settled s0 s1 p s out)
  then show ?case
    by (blast intro: scopes_set_saveEditedMessage_settled scopes_set_saved)
next
  case (new_chat s)
  then show ?case by (simp add: scopes_set_def startNewChat_def)
qed (auto simp: scopes_set_def)

lemma answered_state_eq:
  "answered_state = \<lparr>messages = [user_msg (ascii ''What is X?'') (ascii ''local''),
       \<lparr>role = ascii ''assistant'', content = Str (ascii ''X is a module.''), sources = Some [ascii ''x.py''],
         responseTime = Some 42, dbScope = Str (ascii ''local'')\<rparr>],
     input = [], loading = False, sessionId = Str (ascii ''s7''), loadingHistory = False,
     selectedDb = ascii ''shared'', editingIndex = None, editingText = [], isRegenerating = False,
     isListening = False, speechSupported = False, previousSessionRef = Str (ascii ''s7''),
     lastSessionId = Some (ascii ''s7'')\<rparr>"
  by (simp add: answered_state_def asking_sent(2,3) answer_data_def assign_session_def Let_def)

lemma reachable_examples:
  "reachable asking_state" "reachable asked_state" "reachable sending_state"
  "reachable answered_state" "reachable reediting_state" "reachable regenerating_state"
proof -
  show asking: "reachable asking_state"
    unfolding asking_state_def by (rule reachable.set_input [OF reachable.mount])
  then have "reachable (fst (sendMessage asking_state))"
    by (rule reachable.send)
  then show asked: "reachable asked_state"
    by (simp add: asked_state_def)
  have "reachable (asked_state\<lparr>editingIndex := Some 0, editingText := ascii ''What is X?''\<rparr>)"
    by (rule reachable.start_edit [OF asked]) (simp_all add: asking_sent(3) user_msg_def)
  then have "reachable (asked_state\<lparr>editingIndex := Some 0, editingText := ascii ''What is X?'',
      editingText := ascii ''What is Y?''\<rparr>)"
    by (rule reachable.set_edit_text)
  then show "reachable sending_state"
    by (simp add: sending_state_def)
  from asked have "reachable (asked_state\<lparr>selectedDb := ascii ''shared''\<rparr>)"
    by (rule reachable.select_db) simp
  then show answered: "reachable answered_state"
    unfolding answered_state_def
    by (rule reachable.send_settled [OF asking asking_sent(1)])
  have "reachable (answered_state\<lparr>editingIndex := Some 0, editingText := ascii ''What is X?''\<rparr>)"
    by (rule reachable.start_edit [OF answered])
      (simp_all add: answered_state_eq user_msg_def)
  then have "reachable (answered_state\<lparr>editingIndex := Some 0, editingText := ascii ''What is X?'',
      editingText := ascii ''What is Y?''\<rparr>)"
    by (rule reachable.set_edit_text)
  then show reediting: "reachable reediting_state"
    by (simp add: reediting_state_def)
  have "saveEditedMessage reediting_state =
      Inr (after_save reediting_state, snd (projr (saveEditedMessage reediting_state)))"
    by (simp add: after_save_def saveEditedMessage_def reediting_state_def answered_state_eq
        blank_examples Let_def)
  with reediting have "reachable (after_save reediting_state)"
    by (rule reachable.save)
  then show "reachable regenerating_state"
    unfolding regenerating_state_def by (rule reachable.set_input)
qed

lemma regenerating_state_eq:
  "regenerating_state = \<lparr>messages = [user_msg (ascii ''What is Y?'') (ascii ''local'')],
     input = ascii ''hi'', loading = False, sessionId = Str (ascii ''s7''), loadingHistory = False,
     selectedDb = ascii ''shared'', editingIndex = None, editingText = [], isRegenerating = True,
     isListening = False, speechSupported = False, previousSessionRef = Str (ascii ''s7''),
     lastSessionId = Some (ascii ''s7'')\<rparr>"
  by (simp add: regenerating_state_def after_save_def saveEditedMessage_def reediting_state_def
      answered_state_eq blank_examples updated_def splice1_def js_or_def user_msg_def Let_def)

subsection \<open>The scope of an answer\<close>

text \<open>
  Claim C3. When a query that \<^verbatim>\<open>sendMessage\<close> or \<^verbatim>\<open>saveEditedMessage\<close> sent
  is answered with a parsed body, the continuation appends exactly one message to the
  transcript of that time. The message has role \<^verbatim>\<open>assistant\<close>, carries the answer, the
  sources and the response time of the body, and its scope is the \<^verbatim>\<open>db_scope\<close> that
  the request carried, whatever scope is selected in the state \<open>s2\<close> in which the answer
  arrives.
\<close>

theorem answer_carries_request_scope:
  "(sendMessage s = (s1, Some p) \<longrightarrow>
      messages (sendMessage_settled p (Resolved ok (Some data)) s2) =
        messages s2 @ [\<lparr>role = ascii ''assistant'', content = answer data,
          sources = data_sources data, responseTime = response_time_ms data,
          dbScope = body_db_scope (request p)\<rparr>])
   \<and> (saveEditedMessage s = Inr (s1, Some p) \<longrightarrow>
      messages (saveEditedMessage_settled p (Resolved ok (Some data)) s2) =
        messages s2 @ [\<lparr>role = ascii ''assistant'', content = answer data,
          sources = data_sources data, responseTime = response_time_ms data,
          dbScope = body_db_scope (request p)\<rparr>])"
proof (intro conjI impI)
  assume "sendMessage s = (s1, Some p)"
  then have "cl_dbScope p = body_db_scope (request p)"
    by (simp add: sendMessage_sent)
  then show "messages (sendMessage_settled p (Resolved ok (Some data)) s2) =
        messages s2 @ [\<lparr>role = ascii ''assistant'', content = answer data,
          sources = data_sources data, responseTime = response_time_ms data,
          dbScope = body_db_scope (request p)\<rparr>]"
    by (simp add: Let_def messages_assign_session)
next
  assume "saveEditedMessage s = Inr (s1, Some p)"
  then have "cl_dbScope p = body_db_scope (request p)"
    by (simp add: saveEditedMessage_sent)
  then show "messages (saveEditedMessage_settled p (Resolved ok (Some data)) s2) =
        messages s2 @ [\<lparr>role = ascii ''assistant'', content = answer data,
          sources = data_sources data, responseTime = response_time_ms data,
          dbScope = body_db_scope (request p)\<rparr>]"
    by simp
qed

text \<open>
  The first scenario of the specification: the question \<^verbatim>\<open>What is X?\<close> sent from an
  empty transcript with scope \<^verbatim>\<open>local\<close>; the scope selector is moved to \<^verbatim>\<open>shared\<close>
  before the answer arrives, and the answer is still stamped \<^verbatim>\<open>local\<close>.
\<close>

theorem answer_carries_request_scope_witness:
  "messages (sendMessage_settled asked (Resolved True (Some answer_data))
        (asked_state\<lparr>selectedDb := ascii ''shared''\<rparr>)) =
      [user_msg (ascii ''What is X?'') (ascii ''local''),
       \<lparr>role = ascii ''assistant'', content = Str (ascii ''X is a module.''), sources = Some [ascii ''x.py''],
         responseTime = Some 42, dbScope = Str (ascii ''local'')\<rparr>]
   \<and> messages (saveEditedMessage_settled revised (Resolved True (Some answer_data))
        revised_state) =
      [user_msg (ascii ''Q1-revised'') (ascii ''shared''),
       \<lparr>role = ascii ''assistant'', content = Str (ascii ''X is a module.''), sources = Some [ascii ''x.py''],
         responseTime = Some 42, dbScope = Str (ascii ''shared'')\<rparr>]"
proof -
  have "messages (sendMessage_settled asked (Resolved True (Some answer_data))
        (asked_state\<lparr>selectedDb := ascii ''shared''\<rparr>)) =
      messages (asked_state\<lparr>selectedDb := ascii ''shared''\<rparr>) @
        [\<lparr>role = ascii ''assistant'', content = answer answer_data,
          sources = data_sources answer_data, responseTime = response_time_ms answer_data,
          dbScope = body_db_scope (request asked)\<rparr>]"
    using answer_carries_request_scope [THEN conjunct1, rule_format, OF asking_sent(1)] .
  moreover have "messages (saveEditedMessage_settled revised
        (Resolved True (Some answer_data)) revised_state) =
      messages revised_state @
        [\<lparr>role = ascii ''assistant'', content = answer answer_data,
          sources = data_sources answer_data, responseTime = response_time_ms answer_data,
          dbScope = body_db_scope (request revised)\<rparr>]"
    using answer_carries_request_scope [THEN conjunct2, rule_format, OF editing_saved(1)] .
  ultimately show ?thesis
    by (simp add: asking_sent(2,3) editing_saved(2,3) answer_data_def)
qed

subsection \<open>Edit and truncation\<close>

text \<open>
  Claim C8, as stated, fails when the new text is blank: \<^verbatim>\<open>saveEditedMessage\<close> returns
  at its first line, so the content of the question is not set to the text and the answer
  after it is not removed.
\<close>

theorem blank_edit_changes_nothing:
  "editingIndex blank_edit_state = Some 0
   \<and> role (messages blank_edit_state ! 0) = ascii ''user''
   \<and> role (messages blank_edit_state ! 1) = ascii ''assistant''
   \<and> saveEditedMessage blank_edit_state = Inr (blank_edit_state, None)
   \<and> content (messages (after_save blank_edit_state) ! 0) \<noteq> Str (editingText blank_edit_state)
   \<and> length (messages (after_save blank_edit_state)) = length (messages blank_edit_state)"
  by (simp add: after_save_def saveEditedMessage_def blank_edit_state_def example_states
      blank_examples user_msg_def assistant_msg_def)

text \<open>
  Claim C8, amended: for an index \<open>i\<close> of the transcript, \<^verbatim>\<open>saveEditedMessage\<close>
  with a text that is blank (\<^verbatim>\<open>text.trim()\<close> is empty) returns at once and changes
  nothing. With a text that is not blank it sets the content of message \<open>i\<close> to the text
  and leaves its other fields; when message \<open>i + 1\<close> exists with role \<^verbatim>\<open>assistant\<close>
  it is removed and the messages after it move up, so the transcript is shorter by exactly
  one before the regenerated answer is appended; otherwise the length is unchanged and
  only message \<open>i\<close> differs. (The handler does this for a message of any role.)
\<close>

theorem edit_sets_content_and_truncates:
  "editingIndex s = Some i \<Longrightarrow> i < length (messages s) \<Longrightarrow>
     (blank (editingText s) \<longrightarrow> saveEditedMessage s = Inr (s, None) \<and> after_save s = s)
     \<and> (\<not> blank (editingText s) \<longrightarrow>
        messages (after_save s) ! i = (messages s ! i)\<lparr>content := Str (editingText s)\<rparr>
        \<and> (if Suc i < length (messages s) \<and> role (messages s ! Suc i) = ascii ''assistant''
           then Suc (length (messages (after_save s))) = length (messages s)
             \<and> messages (after_save s) =
                 take i (messages s) @ [(messages s ! i)\<lparr>content := Str (editingText s)\<rparr>]
                   @ drop (Suc (Suc i)) (messages s)
           else length (messages (after_save s)) = length (messages s)
             \<and> messages (after_save s) =
                 (messages s)[i := (messages s ! i)\<lparr>content := Str (editingText s)\<rparr>]))"
proof (intro conjI impI)
  assume "blank (editingText s)"
  then show "saveEditedMessage s = Inr (s, None)"
    by (simp add: saveEditedMessage_def)
  then show "after_save s = s"
    by (simp add: after_save_def)
next
  assume idx: "editingIndex s = Some i" and len: "i < length (messages s)"
    and nonblank: "\<not> blank (editingText s)"
  let ?e = "(messages s ! i)\<lparr>content := Str (editingText s)\<rparr>"
  have after: "messages (after_save s) = updated i (editingText s) (messages s)"
    by (simp add: after_save_valid [OF idx len nonblank])
  show at_i: "messages (after_save s) ! i = ?e"
    by (simp add: after nth_updated len)
  have cut: "Suc i < length (messages s) \<Longrightarrow>
      splice1 (Suc i) ((messages s)[i := ?e]) = take i (messages s) @ [?e] @ drop (Suc (Suc i)) (messages s)"
    using len by (simp add: splice1_def take_Suc_conv_app_nth)
  show "if Suc i < length (messages s) \<and> role (messages s ! Suc i) = ascii ''assistant''
        then Suc (length (messages (after_save s))) = length (messages s)
          \<and> messages (after_save s) = take i (messages s) @ [?e] @ drop (Suc (Suc i)) (messages s)
        else length (messages (after_save s)) = length (messages s)
          \<and> messages (after_save s) = (messages s)[i := ?e]"
  proof (cases "Suc i < length (messages s) \<and> role (messages s ! Suc i) = ascii ''assistant''")
    case True
    then have "messages (after_save s) = splice1 (Suc i) ((messages s)[i := ?e])"
      by (simp add: after updated_cases)
    with True cut show ?thesis
      using length_splice1 [of "Suc i" "(messages s)[i := ?e]"] by simp
  next
    case False
    then have "messages (after_save s) = (messages s)[i := ?e]"
      by (auto simp: after updated_cases)
    with False show ?thesis by auto
  qed
qed

text \<open>
  The second scenario of the specification: \<^verbatim>\<open>[user Q1, assistant A1]\<close>, edit of
  message 0 to \<^verbatim>\<open>Q1-revised\<close>; the transcript becomes \<^verbatim>\<open>[user Q1-revised]\<close>.
  With a no-break space as the text the same edit changes nothing.
\<close>

theorem edit_sets_content_and_truncates_witness:
  "messages (after_save editing_state) ! 0 = user_msg (ascii ''Q1-revised'') (ascii ''shared'')
   \<and> Suc (length (messages (after_save editing_state))) = length (messages editing_state)
   \<and> messages (after_save editing_state) = [user_msg (ascii ''Q1-revised'') (ascii ''shared'')]
   \<and> blank (editingText nbsp_edit_state)
   \<and> saveEditedMessage nbsp_edit_state = Inr (nbsp_edit_state, None)
   \<and> after_save nbsp_edit_state = nbsp_edit_state"
proof -
  have valid: "editingIndex editing_state = Some 0" "0 < length (messages editing_state)"
    by (simp_all add: editing_state_def example_states)
  have nonblank: "\<not> blank (editingText editing_state)"
    by (simp add: editing_state_def example_states blank_examples)
  have nbsp: "editingIndex nbsp_edit_state = Some 0" "0 < length (messages nbsp_edit_state)"
    by (simp_all add: nbsp_edit_state_def example_states)
  have isblank: "blank (editingText nbsp_edit_state)"
    by (simp add: nbsp_edit_state_def blank_examples)
  show ?thesis
    using edit_sets_content_and_truncates [OF valid, THEN conjunct2, THEN mp, OF nonblank]
      edit_sets_content_and_truncates [OF nbsp, THEN conjunct1, THEN mp, OF isblank] isblank
    by (simp add: editing_state_def example_states user_msg_def assistant_msg_def)
qed

subsection \<open>Where the regenerated answer lands\<close>

text \<open>
  Claim C9. However the regeneration of an edited message ends, its continuation appends
  one \<^verbatim>\<open>assistant\<close> message at the end of the transcript of that time. When a later
  \<^verbatim>\<open>user\<close> message follows the edited message \<open>i\<close>, the transcript \<open>s1\<close> that the
  edit leaves still has a message at \<open>i + 1\<close>; and whenever it has, a regeneration that
  completes in \<open>s1\<close> leaves that message at \<open>i + 1\<close> and puts the answer after all the
  messages, at an index beyond \<open>i + 1\<close>.
\<close>

theorem regenerated_answer_is_appended_last:
  "saveEditedMessage s = Inr (s1, Some p) \<Longrightarrow> editingIndex s = Some i \<Longrightarrow>
     (\<exists>a. role a = ascii ''assistant'' \<and> dbScope a = cl_dbScope p
        \<and> messages (saveEditedMessage_settled p out s2) = messages s2 @ [a])
     \<and> ((\<exists>j. i < j \<and> j < length (messages s) \<and> role (messages s ! j) = ascii ''user'') \<longrightarrow>
          Suc i < length (messages s1))
     \<and> (Suc i < length (messages s1) \<longrightarrow>
          messages (saveEditedMessage_settled p out s1) ! Suc i = messages s1 ! Suc i
          \<and> role (last (messages (saveEditedMessage_settled p out s1))) = ascii ''assistant''
          \<and> Suc i < length (messages (saveEditedMessage_settled p out s1)) - 1)"
proof -
  assume saved: "saveEditedMessage s = Inr (s1, Some p)" and idx: "editingIndex s = Some i"
  have app: "\<exists>a. role a = ascii ''assistant'' \<and> dbScope a = cl_dbScope p
        \<and> messages (saveEditedMessage_settled p out t) = messages t @ [a]" for t
    by (cases "(p, out, t)" rule: saveEditedMessage_settled.cases) auto
  from saveEditedMessage_sent(1,6) [OF saved] idx
  have len: "i < length (messages s)"
    and s1: "messages s1 = updated i (editingText s) (messages s)"
    by auto
  have later: "Suc i < length (messages s1)"
    if "i < j" "j < length (messages s)" "role (messages s ! j) = ascii ''user''" for j
  proof (cases "Suc i < length (messages s) \<and> role (messages s ! Suc i) = ascii ''assistant''")
    case True
    with that have "j \<noteq> Suc i" by auto
    with that have "Suc (Suc i) < length (messages s)" by simp
    moreover from True have "Suc (length (messages s1)) = length (messages s)"
      using length_splice1 [of "Suc i" "(messages s)[i := (messages s ! i)\<lparr>content := Str (editingText s)\<rparr>]"]
      by (simp add: s1 updated_cases)
    ultimately show ?thesis by simp
  next
    case False
    then have "length (messages s1) = length (messages s)"
      by (auto simp: s1 updated_cases)
    with that show ?thesis by simp
  qed
  from app [of s1] obtain a where a: "role a = ascii ''assistant''"
    "messages (saveEditedMessage_settled p out s1) = messages s1 @ [a]" by blast
  then have "Suc i < length (messages s1) \<longrightarrow>
          messages (saveEditedMessage_settled p out s1) ! Suc i = messages s1 ! Suc i
          \<and> role (last (messages (saveEditedMessage_settled p out s1))) = ascii ''assistant''
          \<and> Suc i < length (messages (saveEditedMessage_settled p out s1)) - 1"
    by (simp add: nth_append)
  with app [of s2] later show ?thesis by blast
qed

text \<open>
  Two turns, the first question edited and the regeneration failing: the apology comes
  after the second turn, and the second question stands right after the edited one.
\<close>

theorem regenerated_answer_is_appended_last_witness:
  "saveEditedMessage two_turn_state = Inr (after_save two_turn_state, Some revised)
   \<and> role (messages two_turn_state ! 2) = ascii ''user''
   \<and> messages (saveEditedMessage_settled revised Rejected (after_save two_turn_state)) ! 1 =
       user_msg (ascii ''Q2'') (ascii ''local'')
   \<and> role (last (messages (saveEditedMessage_settled revised Rejected
        (after_save two_turn_state)))) = ascii ''assistant''
   \<and> length (messages (saveEditedMessage_settled revised Rejected
        (after_save two_turn_state))) = 4"
proof -
  have saved: "saveEditedMessage two_turn_state = Inr (after_save two_turn_state, Some revised)"
    by (simp add: after_save_def saveEditedMessage_def two_turn_state_def example_states
        blank_examples editing_saved(2) js_or_def user_msg_def Let_def)
  have idx: "editingIndex two_turn_state = Some 0"
    by (simp add: two_turn_state_def)
  have later: "\<exists>j. 0 < j \<and> j < length (messages two_turn_state)
      \<and> role (messages two_turn_state ! j) = ascii ''user''"
    by (rule exI [of _ 2]) (simp add: two_turn_state_def user_msg_def)
  have msgs: "messages (after_save two_turn_state) =
      [user_msg (ascii ''Q1-revised'') (ascii ''shared''), user_msg (ascii ''Q2'') (ascii ''local''),
       assistant_msg (ascii ''A2'') (ascii ''local'')]"
    by (simp add: after_save_def saveEditedMessage_def two_turn_state_def example_states
        blank_examples updated_def splice1_def user_msg_def assistant_msg_def Let_def)
  note appended = regenerated_answer_is_appended_last [OF saved idx, of Rejected]
  from appended [THEN conjunct2, THEN conjunct1, THEN mp, OF later]
  have "Suc 0 < length (messages (after_save two_turn_state))" .
  from appended [THEN conjunct2, THEN conjunct2, THEN mp, OF this] saved
  show ?thesis
    by (simp add: msgs) (simp add: two_turn_state_def user_msg_def)
qed

subsection \<open>The target of an edit\<close>




subsection \<open>Requests while a query is in flight\<close>

text \<open>
  The controls keep out a second request of the same path: while \<^verbatim>\<open>loading\<close> is set
  the send button and the input area are disabled, and while \<^verbatim>\<open>isRegenerating\<close> is
  set the Submit button of the edit box is.
\<close>

lemma same_path_controls_are_inert:
  "loading s \<Longrightarrow> click_send s = (s, None)"
  "loading s \<Longrightarrow> press_enter s = (s, None)"
  "isRegenerating s \<Longrightarrow> click_save s = Inr (s, None)"
  by (simp_all add: click_send_def press_enter_def click_save_def send_button_disabled_def
      textarea_disabled_def save_btn_disabled_def)

text \<open>
  Claim C1 fails on the code where the two paths cross, in reachable states. While a
  regeneration is in flight (\<^verbatim>\<open>isRegenerating\<close> set, \<^verbatim>\<open>loading\<close> not) the send
  button and the input area are enabled: a click or the Enter key runs
  \<^verbatim>\<open>sendMessage\<close>, which appends the new question and sends a second query. While a
  new message is in flight (\<^verbatim>\<open>loading\<close> set, \<^verbatim>\<open>isRegenerating\<close> not) the Submit
  button of the edit box is enabled: a click runs \<^verbatim>\<open>saveEditedMessage\<close>, which
  rewrites the transcript and sends a second query. Nothing is rejected.
\<close>

theorem request_in_flight_not_rejected:
  "reachable regenerating_state \<and> dispatching regenerating_state
   \<and> isRegenerating regenerating_state \<and> \<not> loading regenerating_state
   \<and> \<not> send_button_disabled regenerating_state \<and> \<not> textarea_disabled regenerating_state
   \<and> messages (fst (click_send regenerating_state)) =
       messages regenerating_state @ [user_msg (ascii ''hi'') (ascii ''shared'')]
   \<and> snd (click_send regenerating_state) \<noteq> None
   \<and> press_enter regenerating_state = click_send regenerating_state
   \<and> loading (fst (click_send regenerating_state))
   \<and> isRegenerating (fst (click_send regenerating_state))
   \<and> reachable sending_state \<and> dispatching sending_state
   \<and> loading sending_state \<and> \<not> isRegenerating sending_state
   \<and> edit_box_rendered sending_state \<and> \<not> save_btn_disabled sending_state
   \<and> click_save sending_state = saveEditedMessage sending_state
   \<and> messages (after_save sending_state) = [user_msg (ascii ''What is Y?'') (ascii ''local'')]
   \<and> messages (after_save sending_state) \<noteq> messages sending_state
   \<and> saveEditedMessage sending_state \<noteq> Inr (sending_state, None)
   \<and> saveEditedMessage sending_state \<noteq> Inl TypeError
   \<and> loading (after_save sending_state) \<and> isRegenerating (after_save sending_state)"
  using reachable_examples(3,6)
  by (simp add: dispatching_def send_button_disabled_def textarea_disabled_def
      save_btn_disabled_def edit_box_rendered_def click_send_def press_enter_def
      click_save_def sendMessage_def after_save_def
      saveEditedMessage_def regenerating_state_eq sending_state_def
      asking_sent(3) blank_examples updated_def js_or_def user_msg_def Let_def)

subsection \<open>Binding the session id\<close>

lemma check_unchanged:
  "getItem (lastSessionId s) = previousSessionRef s \<Longrightarrow> checkSessionChange s = s"
  by (simp add: checkSessionChange_def)

lemma check_changed:
  "getItem (lastSessionId s) \<noteq> previousSessionRef s \<Longrightarrow>
     checkSessionChange s = s\<lparr>previousSessionRef := getItem (lastSessionId s),
       sessionId := getItem (lastSessionId s), messages := [], editingIndex := None,
       editingText := []\<rparr>"
  by (simp add: checkSessionChange_def Let_def)

lemma follow_up_sent:
  "sendMessage follow_up_state = (fst (sendMessage follow_up_state), Some follow_up)"
  "cl_sessionId follow_up = Str (ascii ''s1'')"
  "sessionId follow_up_state = Str (ascii ''s1'')"
  by (simp_all add: follow_up_def follow_up_state_def sendMessage_def example_states
      blank_examples Let_def)

text \<open>
  The new-message path. For a query sent by \<^verbatim>\<open>sendMessage\<close> from a state \<open>s\<close>: if
  no session id was bound in \<open>s\<close> and a body is parsed from the response, the continuation
  binds the id of the body, writes it to the item \<^verbatim>\<open>lastSessionId\<close> of the local
  storage and records it as last seen, so that the poll that follows sees no change when
  the id is a string; if an id was bound in \<open>s\<close>, the continuation changes neither the
  bound id nor the item nor the last-seen value, however the query ends. The continuation
  of an edit never writes any of the three.
\<close>

theorem session_id_assigned_once:
  "sendMessage s = (s1, Some p) \<Longrightarrow>
     (\<not> truthy (sessionId s) \<longrightarrow>
        sessionId (sendMessage_settled p (Resolved ok (Some data)) s2) = session_id data
        \<and> lastSessionId (sendMessage_settled p (Resolved ok (Some data)) s2) =
            Some (js_String (session_id data))
        \<and> previousSessionRef (sendMessage_settled p (Resolved ok (Some data)) s2) =
            session_id data
        \<and> (\<forall>x. session_id data = Str x \<longrightarrow>
             checkSessionChange (sendMessage_settled p (Resolved ok (Some data)) s2) =
               sendMessage_settled p (Resolved ok (Some data)) s2))
     \<and> (truthy (sessionId s) \<longrightarrow>
        sessionId (sendMessage_settled p out s2) = sessionId s2
        \<and> lastSessionId (sendMessage_settled p out s2) = lastSessionId s2
        \<and> previousSessionRef (sendMessage_settled p out s2) = previousSessionRef s2)
     \<and> sessionId (saveEditedMessage_settled q out s2) = sessionId s2
     \<and> lastSessionId (saveEditedMessage_settled q out s2) = lastSessionId s2
     \<and> previousSessionRef (saveEditedMessage_settled q out s2) = previousSessionRef s2"
proof -
  assume sent: "sendMessage s = (s1, Some p)"
  then have cl: "cl_sessionId p = sessionId s"
    by (simp add: sendMessage_sent)
  let ?t = "sendMessage_settled p (Resolved ok (Some data)) s2"
  have unbound: "sessionId ?t = session_id data
      \<and> lastSessionId ?t = Some (js_String (session_id data))
      \<and> previousSessionRef ?t = session_id data" if "\<not> truthy (sessionId s)"
    using that cl by (simp add: assign_session_def Let_def)
  have stable: "checkSessionChange ?t = ?t"
    if "\<not> truthy (sessionId s)" and "session_id data = Str x" for x
    using unbound [OF that(1)] that(2) by (simp add: check_unchanged)
  have bound: "sessionId (sendMessage_settled p out s2) = sessionId s2
      \<and> lastSessionId (sendMessage_settled p out s2) = lastSessionId s2
      \<and> previousSessionRef (sendMessage_settled p out s2) = previousSessionRef s2"
    if "truthy (sessionId s)"
    using that cl
    by (cases "(p, out, s2)" rule: sendMessage_settled.cases)
      (simp_all add: assign_session_def Let_def)
  have edit: "sessionId (saveEditedMessage_settled q out s2) = sessionId s2
     \<and> lastSessionId (saveEditedMessage_settled q out s2) = lastSessionId s2
     \<and> previousSessionRef (saveEditedMessage_settled q out s2) = previousSessionRef s2"
    by (cases "(q, out, s2)" rule: saveEditedMessage_settled.cases) simp_all
  from unbound stable bound edit show ?thesis by blast
qed

text \<open>
  The first scenario of the specification binds the id \<^verbatim>\<open>s7\<close> of the answer; a further
  question in the session \<^verbatim>\<open>s1\<close> keeps \<^verbatim>\<open>s1\<close> although the answer names \<^verbatim>\<open>s7\<close>.
\<close>

theorem session_id_assigned_once_witness:
  "sessionId (sendMessage_settled asked (Resolved True (Some answer_data)) asked_state) =
     Str (ascii ''s7'')
   \<and> lastSessionId (sendMessage_settled asked (Resolved True (Some answer_data)) asked_state) =
     Some (ascii ''s7'')
   \<and> previousSessionRef (sendMessage_settled asked (Resolved True (Some answer_data))
       asked_state) = Str (ascii ''s7'')
   \<and> sessionId (sendMessage_settled follow_up (Resolved True (Some answer_data))
       (fst (sendMessage follow_up_state))) = Str (ascii ''s1'')
   \<and> lastSessionId (sendMessage_settled follow_up (Resolved True (Some answer_data))
       (fst (sendMessage follow_up_state))) = Some (ascii ''s1'')"
proof -
  have unbound: "\<not> truthy (sessionId asking_state)"
    by (simp add: example_states)
  have bound: "truthy (sessionId follow_up_state)"
    by (simp add: follow_up_sent(3))
  have after: "sessionId (fst (sendMessage follow_up_state)) = Str (ascii ''s1'')"
    "lastSessionId (fst (sendMessage follow_up_state)) = Some (ascii ''s1'')"
    by (simp_all add: follow_up_state_def sendMessage_def example_states blank_examples Let_def)
  show ?thesis
    using session_id_assigned_once [OF asking_sent(1), THEN conjunct1, rule_format,
        OF unbound, of True answer_data asked_state]
      session_id_assigned_once [OF follow_up_sent(1), THEN conjunct2, THEN conjunct1,
        rule_format, OF bound, of "Resolved True (Some answer_data)"
        "fst (sendMessage follow_up_state)"]
    by (simp add: answer_data_def after)
qed

lemma unbound_edit_saved:
  "apologised_state = \<lparr>messages = [user_msg (ascii ''What is X?'') (ascii ''local''),
       \<lparr>role = ascii ''assistant'',
         content = Str (ascii ''Sorry, there was an error. Please try again.''),
         sources = None, responseTime = None, dbScope = Str (ascii ''local'')\<rparr>],
     input = [], loading = False, sessionId = Null, loadingHistory = False,
     selectedDb = ascii ''local'', editingIndex = None, editingText = [],
     isRegenerating = False, isListening = False, speechSupported = False,
     previousSessionRef = Null, lastSessionId = None\<rparr>"
  "saveEditedMessage unbound_edit_state = Inr (after_save unbound_edit_state, Some unbound_edit)"
  "unbound_edit = \<lparr>request = \<lparr>query = ascii ''What is Y?'', body_session_id = Null,
       use_rag = True, body_db_scope = Str (ascii ''local'')\<rparr>,
     cl_sessionId = Null, cl_dbScope = Str (ascii ''local'')\<rparr>"
  "after_save unbound_edit_state = \<lparr>messages = [user_msg (ascii ''What is Y?'') (ascii ''local'')],
     input = [], loading = False, sessionId = Null, loadingHistory = False,
     selectedDb = ascii ''local'', editingIndex = None, editingText = [],
     isRegenerating = True, isListening = False, speechSupported = False,
     previousSessionRef = Null, lastSessionId = None\<rparr>"
  by (simp_all add: apologised_state_def unbound_edit_state_def unbound_edit_def after_save_def
      saveEditedMessage_def asking_sent(2,3) blank_examples updated_def splice1_def js_or_def
      user_msg_def Let_def)

lemma reachable_unbound_edit:
  "reachable unbound_edit_state"
  "reachable (saveEditedMessage_settled unbound_edit (Resolved True (Some answer_data))
     (after_save unbound_edit_state))"
proof -
  have "reachable apologised_state"
    unfolding apologised_state_def
    by (rule reachable.send_settled [OF reachable_examples(1) asking_sent(1)
          reachable_examples(2)])
  then have "reachable (apologised_state\<lparr>editingIndex := Some 0,
      editingText := ascii ''What is X?''\<rparr>)"
    by (rule reachable.start_edit) (simp_all add: unbound_edit_saved(1) user_msg_def)
  then have "reachable (apologised_state\<lparr>editingIndex := Some 0,
      editingText := ascii ''What is X?'', editingText := ascii ''What is Y?''\<rparr>)"
    by (rule reachable.set_edit_text)
  then show edit: "reachable unbound_edit_state"
    by (simp add: unbound_edit_state_def)
  then have "reachable (after_save unbound_edit_state)"
    using unbound_edit_saved(2) by (rule reachable.save)
  with edit unbound_edit_saved(2)
  show "reachable (saveEditedMessage_settled unbound_edit (Resolved True (Some answer_data))
     (after_save unbound_edit_state))"
    by (rule reachable.save_settled)
qed

text \<open>
  Claim C6 fails on the code for an edited question. The first query of a conversation is
  rejected by the network, so no session id is bound; the user edits the question and
  submits it. The request carries \<^verbatim>\<open>session_id: null\<close> and is answered with the id
  \<^verbatim>\<open>s7\<close>, but \<^verbatim>\<open>saveEditedMessage\<close> has no block \<^verbatim>\<open>if (!sessionId)\<close> as
  \<^verbatim>\<open>sendMessage\<close> has: after the successful regeneration no session id is bound,
  nothing is written to the shared pointer, and the next question is sent with
  \<^verbatim>\<open>session_id: null\<close> again.
\<close>

theorem edit_answer_leaves_session_unbound:
  "reachable unbound_edit_state
   \<and> sessionId unbound_edit_state = Null
   \<and> edit_box_rendered unbound_edit_state \<and> \<not> save_btn_disabled unbound_edit_state
   \<and> click_save unbound_edit_state = Inr (after_save unbound_edit_state, Some unbound_edit)
   \<and> body_session_id (request unbound_edit) = Null
   \<and> session_id answer_data = Str (ascii ''s7'')
   \<and> reachable (saveEditedMessage_settled unbound_edit (Resolved True (Some answer_data))
        (after_save unbound_edit_state))
   \<and> messages (saveEditedMessage_settled unbound_edit (Resolved True (Some answer_data))
        (after_save unbound_edit_state)) =
       [user_msg (ascii ''What is Y?'') (ascii ''local''),
        \<lparr>role = ascii ''assistant'', content = Str (ascii ''X is a module.''),
          sources = Some [ascii ''x.py''], responseTime = Some 42,
          dbScope = Str (ascii ''local'')\<rparr>]
   \<and> sessionId (saveEditedMessage_settled unbound_edit (Resolved True (Some answer_data))
        (after_save unbound_edit_state)) = Null
   \<and> lastSessionId (saveEditedMessage_settled unbound_edit (Resolved True (Some answer_data))
        (after_save unbound_edit_state)) = None
   \<and> previousSessionRef (saveEditedMessage_settled unbound_edit
        (Resolved True (Some answer_data)) (after_save unbound_edit_state)) = Null
   \<and> body_session_id (request (the (snd (click_send
        ((saveEditedMessage_settled unbound_edit (Resolved True (Some answer_data))
           (after_save unbound_edit_state))\<lparr>input := ascii ''hi''\<rparr>))))) = Null"
proof -
  have page: "sessionId unbound_edit_state = Null"
    "edit_box_rendered unbound_edit_state" "\<not> save_btn_disabled unbound_edit_state"
    by (simp_all add: edit_box_rendered_def save_btn_disabled_def unbound_edit_state_def
        unbound_edit_saved(1) blank_examples user_msg_def)
  then have click: "click_save unbound_edit_state =
      Inr (after_save unbound_edit_state, Some unbound_edit)"
    by (simp add: click_save_def unbound_edit_saved(2))
  have answer: "body_session_id (request unbound_edit) = Null"
    "session_id answer_data = Str (ascii ''s7'')"
    by (simp_all add: unbound_edit_saved(3) answer_data_def)
  have settled: "saveEditedMessage_settled unbound_edit (Resolved True (Some answer_data))
        (after_save unbound_edit_state) =
      \<lparr>messages = [user_msg (ascii ''What is Y?'') (ascii ''local''),
          \<lparr>role = ascii ''assistant'', content = Str (ascii ''X is a module.''),
            sources = Some [ascii ''x.py''], responseTime = Some 42,
            dbScope = Str (ascii ''local'')\<rparr>],
        input = [], loading = False, sessionId = Null, loadingHistory = False,
        selectedDb = ascii ''local'', editingIndex = None, editingText = [],
        isRegenerating = False, isListening = False, speechSupported = False,
        previousSessionRef = Null, lastSessionId = None\<rparr>"
    by (simp add: unbound_edit_saved(3,4) answer_data_def)
  have "body_session_id (request (the (snd (click_send
        ((saveEditedMessage_settled unbound_edit (Resolved True (Some answer_data))
           (after_save unbound_edit_state))\<lparr>input := ascii ''hi''\<rparr>))))) = Null"
    by (simp only: settled)
      (simp add: click_send_def send_button_disabled_def sendMessage_def blank_examples
        Let_def)
  with reachable_unbound_edit page click answer show ?thesis
    by (simp only: settled) simp
qed

subsection \<open>A change of the shared session pointer\<close>

text \<open>
  Claim C7. When the poll finds the item \<^verbatim>\<open>lastSessionId\<close> different from the last
  value seen, \<^verbatim>\<open>checkSessionChange\<close> empties the transcript and binds the new value,
  and a second poll on the unchanged item does nothing more. The history effect that the
  change of \<^verbatim>\<open>sessionId\<close> triggers requests the history only for a truthy id and
  leaves the transcript empty until its fetch settles; the transcript is then the fetched
  history when the load succeeded and empty otherwise. In particular it is empty when the
  new id is \<^verbatim>\<open>null\<close>. In any state, a load that failed leaves the transcript as it was.
\<close>

theorem pointer_change_resets_before_load:
  "getItem (lastSessionId s) \<noteq> previousSessionRef s \<Longrightarrow>
     messages (checkSessionChange s) = []
     \<and> sessionId (checkSessionChange s) = getItem (lastSessionId s)
     \<and> previousSessionRef (checkSessionChange s) = getItem (lastSessionId s)
     \<and> checkSessionChange (checkSessionChange s) = checkSessionChange s
     \<and> messages (fst (sessionId_effect s (checkSessionChange s))) = []
     \<and> snd (sessionId_effect s (checkSessionChange s)) =
         (if truthy (getItem (lastSessionId s)) \<and> getItem (lastSessionId s) \<noteq> sessionId s
          then Some (getItem (lastSessionId s)) else None)
     \<and> messages (loadChatHistory_settled out (fst (sessionId_effect s (checkSessionChange s)))) =
         (case out of Resolved True (Some rows) \<Rightarrow> map loaded_message rows | _ \<Rightarrow> [])
     \<and> (getItem (lastSessionId s) = Null \<longrightarrow>
          sessionId_effect s (checkSessionChange s) = (checkSessionChange s, None))
     \<and> ((\<forall>rows. out \<noteq> Resolved True (Some rows)) \<longrightarrow>
          messages (loadChatHistory_settled out t) = messages t)"
proof -
  assume changed: "getItem (lastSessionId s) \<noteq> previousSessionRef s"
  let ?c = "checkSessionChange s"
  let ?e = "sessionId_effect s ?c"
  have c: "messages ?c = []" "sessionId ?c = getItem (lastSessionId s)"
    "previousSessionRef ?c = getItem (lastSessionId s)" "lastSessionId ?c = lastSessionId s"
    by (simp_all add: check_changed [OF changed])
  have again: "checkSessionChange ?c = ?c"
    by (rule check_unchanged) (simp add: c)
  have e: "messages (fst ?e) = []"
    "snd ?e = (if truthy (getItem (lastSessionId s)) \<and> getItem (lastSessionId s) \<noteq> sessionId s
          then Some (getItem (lastSessionId s)) else None)"
    by (auto simp: sessionId_effect_def loadChatHistory_def c)
  have settled: "messages (loadChatHistory_settled out u) =
      (case out of Resolved True (Some rows) \<Rightarrow> map loaded_message rows | _ \<Rightarrow> messages u)" for u
    by (cases "(out, u)" rule: loadChatHistory_settled.cases) simp_all
  have final: "messages (loadChatHistory_settled out (fst ?e)) =
      (case out of Resolved True (Some rows) \<Rightarrow> map loaded_message rows | _ \<Rightarrow> [])"
    by (simp add: settled e(1) split: fetched.splits option.splits bool.splits)
  have "?c\<lparr>messages := []\<rparr> = ?c"
    by (simp add: check_changed [OF changed])
  then have null: "getItem (lastSessionId s) = Null \<longrightarrow> ?e = (?c, None)"
    by (simp add: sessionId_effect_def loadChatHistory_def c)
  have failed: "(\<forall>rows. out \<noteq> Resolved True (Some rows)) \<longrightarrow>
      messages (loadChatHistory_settled out t) = messages t"
    by (cases "(out, t)" rule: loadChatHistory_settled.cases) simp_all
  from c(1-3) again e final null failed show ?thesis by blast
qed

text \<open>
  The third scenario of the specification: the pointer changes from \<^verbatim>\<open>s1\<close> to
  \<^verbatim>\<open>s2\<close>; the transcript clears, the history of \<^verbatim>\<open>s2\<close> is requested and installed,
  and a response with status 500 leaves the transcript empty.
\<close>

theorem pointer_change_resets_before_load_witness:
  "messages (checkSessionChange switched_state) = []
   \<and> sessionId (checkSessionChange switched_state) = Str (ascii ''s2'')
   \<and> snd (sessionId_effect switched_state (checkSessionChange switched_state)) =
       Some (Str (ascii ''s2''))
   \<and> messages (loadChatHistory_settled (Resolved True (Some history_rows))
       (fst (sessionId_effect switched_state (checkSessionChange switched_state)))) =
       [\<lparr>role = ascii ''user'', content = Str (ascii ''Q''), sources = Some [], responseTime = None,
          dbScope = Str (ascii ''local'')\<rparr>,
        \<lparr>role = ascii ''assistant'', content = Str (ascii ''A''), sources = Some [ascii ''a.md''],
          responseTime = Some 7, dbScope = Str (ascii ''shared'')\<rparr>]
   \<and> messages (loadChatHistory_settled (Resolved False None)
       (fst (sessionId_effect switched_state (checkSessionChange switched_state)))) = []
   \<and> messages (fst (sessionId_effect (idle_state\<lparr>lastSessionId := None\<rparr>)
       (checkSessionChange (idle_state\<lparr>lastSessionId := None\<rparr>)))) = []
   \<and> snd (sessionId_effect (idle_state\<lparr>lastSessionId := None\<rparr>)
       (checkSessionChange (idle_state\<lparr>lastSessionId := None\<rparr>))) = None"
proof -
  have removed: "getItem (lastSessionId (idle_state\<lparr>lastSessionId := None\<rparr>)) \<noteq>
      previousSessionRef (idle_state\<lparr>lastSessionId := None\<rparr>)"
    by (simp add: example_states)
  have changed: "getItem (lastSessionId switched_state) \<noteq> previousSessionRef switched_state"
    by (simp add: switched_state_def example_states)
  have vals: "getItem (lastSessionId switched_state) = Str (ascii ''s2'')"
    "sessionId switched_state = Str (ascii ''s1'')"
    by (simp_all add: switched_state_def example_states)
  show ?thesis
    using pointer_change_resets_before_load [OF changed, of "Resolved True (Some history_rows)"]
      pointer_change_resets_before_load [OF changed, of "Resolved False None"]
      pointer_change_resets_before_load [OF removed]
    by (simp add: vals history_rows_def loaded_message_def js_or_def)
qed

subsection \<open>Scopes in reachable states\<close>

text \<open>
  Claim C4. In every reachable state, the request that \<^verbatim>\<open>saveEditedMessage\<close> sends
  for the message at the edit index \<open>i\<close> carries the scope recorded on that message, and
  the continuation keeps the same scope for the answer. The scope selected in the input
  area plays no part: with any other selection the handler sends the same request. (The
  fallback \<^verbatim>\<open>|| selectedDb\<close> of the handler is never taken, since every message of a
  reachable transcript has a non-empty scope.)
\<close>

theorem edit_request_uses_recorded_scope:
  "reachable s \<Longrightarrow> editingIndex s = Some i \<Longrightarrow> saveEditedMessage s = Inr (s1, Some p) \<Longrightarrow>
     body_db_scope (request p) = dbScope (messages s ! i)
     \<and> cl_dbScope p = dbScope (messages s ! i)
     \<and> (\<forall>db. \<exists>s1'. saveEditedMessage (s\<lparr>selectedDb := db\<rparr>) = Inr (s1', Some p))"
proof -
  assume r: "reachable s" and idx: "editingIndex s = Some i"
    and saved: "saveEditedMessage s = Inr (s1, Some p)"
  from saved idx have len: "i < length (messages s)" and nonblank: "\<not> blank (editingText s)"
    using saveEditedMessage_sent(1) [OF saved] saveEditedMessage_sent(2) [OF saved] by auto
  from reachable_scopes_set [OF r] len have t: "truthy (dbScope (messages s ! i))"
    by (simp add: scopes_set_def list_all_length)
  have p: "p = \<lparr>request = \<lparr>query = editingText s, body_session_id = sessionId s,
                  use_rag = True, body_db_scope = dbScope (messages s ! i)\<rparr>,
                cl_sessionId = sessionId s, cl_dbScope = dbScope (messages s ! i)\<rparr>"
    using saved by (simp add: saveEditedMessage_valid [OF idx len nonblank] js_or_truthy [OF t])
  have "\<exists>s1'. saveEditedMessage (s\<lparr>selectedDb := db\<rparr>) = Inr (s1', Some p)" for db
  proof -
    have "editingIndex (s\<lparr>selectedDb := db\<rparr>) = Some i"
      "i < length (messages (s\<lparr>selectedDb := db\<rparr>))"
      "\<not> blank (editingText (s\<lparr>selectedDb := db\<rparr>))"
      using idx len nonblank by simp_all
    from saveEditedMessage_valid [OF this] show ?thesis
      by (simp add: p js_or_truthy [OF t])
  qed
  with p show ?thesis by simp
qed

text \<open>
  The question was asked with scope \<^verbatim>\<open>local\<close>; it is edited while the selector shows
  \<^verbatim>\<open>shared\<close>, and the regeneration request carries \<^verbatim>\<open>local\<close>.
\<close>

theorem edit_request_uses_recorded_scope_witness:
  "selectedDb reediting_state = ascii ''shared''
   \<and> dbScope (messages reediting_state ! 0) = Str (ascii ''local'')
   \<and> body_db_scope (request (the (snd (projr (saveEditedMessage reediting_state))))) =
       Str (ascii ''local'')
   \<and> cl_dbScope (the (snd (projr (saveEditedMessage reediting_state)))) = Str (ascii ''local'')"
proof -
  have idx: "editingIndex reediting_state = Some 0"
    by (simp add: reediting_state_def)
  have saved: "saveEditedMessage reediting_state =
      Inr (after_save reediting_state, Some (the (snd (projr (saveEditedMessage reediting_state)))))"
    by (simp add: after_save_def saveEditedMessage_def reediting_state_def answered_state_eq
        blank_examples Let_def)
  have vals: "selectedDb reediting_state = ascii ''shared''"
    "dbScope (messages reediting_state ! 0) = Str (ascii ''local'')"
    by (simp_all add: reediting_state_def answered_state_eq user_msg_def)
  from edit_request_uses_recorded_scope [OF reachable_examples(5) idx saved] vals
  show ?thesis by simp
qed

text \<open>
  Claim C10. Every message of the transcript of a reachable state carries a scope that is
  neither \<^verbatim>\<open>null\<close> nor \<^verbatim>\<open>undefined\<close>: it is a non-empty string. The messages that
  the continuations of \<^verbatim>\<open>sendMessage\<close> and \<^verbatim>\<open>saveEditedMessage\<close> append, the
  apologies included, carry the scope of their request, and a message built from a fetched
  row carries the scope of the row, or \<^verbatim>\<open>local\<close> when the row has none.
\<close>

theorem every_message_carries_scope:
  "reachable s \<Longrightarrow>
     (\<forall>m \<in> set (messages s). dbScope m \<noteq> Null \<and> dbScope m \<noteq> Undefined
        \<and> (\<exists>sc. dbScope m = Str sc \<and> sc \<noteq> []))
     \<and> (\<forall>s0 s1 p out. sendMessage s0 = (s1, Some p) \<longrightarrow>
          (\<exists>a. messages (sendMessage_settled p out s) = messages s @ [a]
             \<and> dbScope a = body_db_scope (request p)))
     \<and> (\<forall>s0 s1 p out. saveEditedMessage s0 = Inr (s1, Some p) \<longrightarrow>
          (\<exists>a. messages (saveEditedMessage_settled p out s) = messages s @ [a]
             \<and> dbScope a = body_db_scope (request p)))
     \<and> (\<forall>row. dbScope (loaded_message row) =
          (if truthy (db_scope row) then db_scope row else Str (ascii ''local'')))"
proof -
  assume r: "reachable s"
  have inv: "\<forall>m \<in> set (messages s). dbScope m \<noteq> Null \<and> dbScope m \<noteq> Undefined
        \<and> (\<exists>sc. dbScope m = Str sc \<and> sc \<noteq> [])"
  proof
    fix m assume "m \<in> set (messages s)"
    with reachable_scopes_set [OF r] have "truthy (dbScope m)"
      by (simp add: scopes_set_def list_all_iff)
    then show "dbScope m \<noteq> Null \<and> dbScope m \<noteq> Undefined \<and> (\<exists>sc. dbScope m = Str sc \<and> sc \<noteq> [])"
      by (cases "dbScope m") simp_all
  qed
  have send: "\<exists>a. messages (sendMessage_settled p out s) = messages s @ [a]
             \<and> dbScope a = body_db_scope (request p)"
    if "sendMessage s0 = (s1, Some p)" for s0 s1 p out
  proof -
    from that have "cl_dbScope p = body_db_scope (request p)"
      by (simp add: sendMessage_sent)
    then show ?thesis
      by (cases "(p, out, s)" rule: sendMessage_settled.cases)
        (simp_all add: Let_def messages_assign_session)
  qed
  have save: "\<exists>a. messages (saveEditedMessage_settled p out s) = messages s @ [a]
             \<and> dbScope a = body_db_scope (request p)"
    if "saveEditedMessage s0 = Inr (s1, Some p)" for s0 s1 p out
  proof -
    from that have "cl_dbScope p = body_db_scope (request p)"
      by (simp add: saveEditedMessage_sent)
    then show ?thesis
      by (cases "(p, out, s)" rule: saveEditedMessage_settled.cases) simp_all
  qed
  have row: "dbScope (loaded_message row) =
          (if truthy (db_scope row) then db_scope row else Str (ascii ''local''))" for row
    by (simp add: loaded_message_def js_or_def)
  from inv send save row show ?thesis by blast
qed

text \<open>
  Both messages of the answered question carry \<^verbatim>\<open>local\<close>, and the first row of the
  example history, stored without a scope, is installed with \<^verbatim>\<open>local\<close>.
\<close>

theorem every_message_carries_scope_witness:
  "list_all (\<lambda>m. dbScope m \<noteq> Null \<and> dbScope m \<noteq> Undefined) (messages reediting_state)
   \<and> map dbScope (messages reediting_state) = [Str (ascii ''local''), Str (ascii ''local'')]
   \<and> db_scope (hd history_rows) = Undefined
   \<and> dbScope (loaded_message (hd history_rows)) = Str (ascii ''local'')"
proof -
  have "map dbScope (messages reediting_state) = [Str (ascii ''local''), Str (ascii ''local'')]"
    by (simp add: reediting_state_def answered_state_eq user_msg_def)
  moreover have "db_scope (hd history_rows) = Undefined"
    by (simp add: history_rows_def)
  ultimately show ?thesis
    using every_message_carries_scope [OF reachable_examples(5)]
    by (simp add: list_all_iff)
qed

subsection \<open>A query that fails\<close>

text \<open>
  When \<^verbatim>\<open>fetch\<close> rejects, or the body of the response does not parse, both
  continuations append one apology of role \<^verbatim>\<open>assistant\<close> with the scope of the
  request, clear their in-flight flag and write nothing else.
\<close>

lemma failed_fetch_appends_apology:
  assumes "out = Rejected \<or> out = Resolved ok None"
  shows "sendMessage_settled p out s =
      s\<lparr>messages := messages s @
          [\<lparr>role = ascii ''assistant'', content = Str (ascii ''Sorry, there was an error. Please try again.''),
            sources = None, responseTime = None, dbScope = cl_dbScope p\<rparr>],
        loading := False\<rparr>"
    and "saveEditedMessage_settled p out s =
      s\<lparr>messages := messages s @
          [\<lparr>role = ascii ''assistant'',
            content = Str (ascii ''Sorry, there was an error regenerating the response. Please try again.''),
            sources = None, responseTime = None, dbScope = cl_dbScope p\<rparr>],
        isRegenerating := False\<rparr>"
  using assms by auto

text \<open>
  Claim C5 holds for those failures, and fails for a server error whose body is JSON (a
  status 500 with \<^verbatim>\<open>{"detail": ...}\<close>): \<^verbatim>\<open>fetch\<close> resolves,
  \<^verbatim>\<open>response.json()\<close> succeeds, neither handler reads \<^verbatim>\<open>response.ok\<close> (as
  \<^verbatim>\<open>loadChatHistory\<close> does), and the \<^verbatim>\<open>try\<close> block goes on with the fields of
  the error body. For the first question of a conversation the appended message has no
  content instead of the apology, \<^verbatim>\<open>undefined\<close> is bound as session id and the
  string \<^verbatim>\<open>undefined\<close> is written to the shared pointer. The bound id has changed
  from \<^verbatim>\<open>null\<close> to \<^verbatim>\<open>undefined\<close>, so the history effect runs and, the id
  being falsy, empties the transcript; the next poll sees a change of the pointer and
  leaves the transcript empty, bound to the string \<^verbatim>\<open>undefined\<close>. The regeneration
  of an edit appends a message without content as well.
\<close>

theorem server_error_with_json_body:
  "reachable asked_state
   \<and> sendMessage_settled asked (Resolved False (Some error_data)) asked_state =
     \<lparr>messages = [user_msg (ascii ''What is X?'') (ascii ''local''),
        \<lparr>role = ascii ''assistant'', content = Undefined, sources = None, responseTime = None,
          dbScope = Str (ascii ''local'')\<rparr>],
      input = [], loading = False, sessionId = Undefined, loadingHistory = False,
      selectedDb = ascii ''local'', editingIndex = None, editingText = [], isRegenerating = False,
      isListening = False, speechSupported = False, previousSessionRef = Undefined,
      lastSessionId = Some (ascii ''undefined'')\<rparr>
   \<and> content (last (messages
        (sendMessage_settled asked (Resolved False (Some error_data)) asked_state))) \<noteq>
       Str (ascii ''Sorry, there was an error. Please try again.'')
   \<and> sessionId_effect asked_state
        (sendMessage_settled asked (Resolved False (Some error_data)) asked_state) =
       ((sendMessage_settled asked (Resolved False (Some error_data)) asked_state)
          \<lparr>messages := []\<rparr>, None)
   \<and> messages (checkSessionChange
        (sendMessage_settled asked (Resolved False (Some error_data)) asked_state)) = []
   \<and> sessionId (checkSessionChange
        (sendMessage_settled asked (Resolved False (Some error_data)) asked_state)) =
       Str (ascii ''undefined'')
   \<and> messages (saveEditedMessage_settled revised (Resolved False (Some error_data))
        revised_state) =
       [user_msg (ascii ''Q1-revised'') (ascii ''shared''),
        \<lparr>role = ascii ''assistant'', content = Undefined, sources = None, responseTime = None,
          dbScope = Str (ascii ''shared'')\<rparr>]"
  using reachable_examples(2)
  by (simp add: asking_sent(2,3) editing_saved(2,3) error_data_def assign_session_def
      checkSessionChange_def sessionId_effect_def loadChatHistory_def Let_def)


end
